theory Spec2Isabelle
  imports Main "HOL-Library.Sublist"
begin

section \<open>Strings, JSON values and errors\<close>

text \<open>
  A Python \<open>str\<close> is a sequence of Unicode code points, and \<open>len\<close>, slicing and
  \<open>in\<close> work on code points; it is modelled as a list of code points.  \<open>lit\<close> gives the
  code points of an ASCII literal; other characters are written by their number
  (10 is the newline, 39 the apostrophe, 96 the backquote).
\<close>

type_synonym str = "nat list"

definition lit :: "string \<Rightarrow> str" where
  "lit cs = map of_char cs"

text \<open>
  \<open>str.lower()\<close> is Python's: its result follows the case mappings of the Unicode
  database, which are not reproduced here.  The functions that call it take it as their
  first argument, \<open>lower\<close>, and what is proved of them holds for whatever function it
  is.
\<close>

text \<open>\<open>sep.join(xs)\<close>.\<close>

fun join :: "str \<Rightarrow> str list \<Rightarrow> str" where
  "join sep [] = []"
| "join sep [x] = x"
| "join sep (x # y # ys) = x @ sep @ join sep (y # ys)"

text \<open>\<open>t.split(sep)\<close> for a separator of one code point: never an empty result.\<close>

fun split :: "nat \<Rightarrow> str \<Rightarrow> str list" where
  "split sep [] = [[]]"
| "split sep (c # cs) =
     (if c = sep then [] # split sep cs
      else (case split sep cs of [] \<Rightarrow> [[c]] | w # ws \<Rightarrow> (c # w) # ws))"

text \<open>\<open>str(n)\<close> for an integer.\<close>

fun dec_nat :: "nat \<Rightarrow> str" where
  "dec_nat n = (if n < 10 then [48 + n] else dec_nat (n div 10) @ [48 + n mod 10])"

definition dec_int :: "int \<Rightarrow> str" where
  "dec_int i = (if i < 0 then 45 # dec_nat (nat (- i)) else dec_nat (nat i))"

text \<open>
  What \<open>Response.json()\<close> returns.  The hashable values are a type of their own, since
  only they can be tested against a set.  Numbers with a fraction are not modelled.  An
  object is the list of its items in insertion order, with distinct keys.
\<close>

datatype scalar = SNone | SBool bool | SInt int | SStr str

datatype json = JScalar scalar | JList "json list" | JDict "(str \<times> json) list"

text \<open>The string an f-string puts for a value, \<open>format(v, "")\<close>.\<close>

fun py_str :: "scalar \<Rightarrow> str" where
  "py_str SNone = lit ''None''"
| "py_str (SBool b) = (if b then lit ''True'' else lit ''False'')"
| "py_str (SInt i) = dec_int i"
| "py_str (SStr t) = t"

text \<open>
  The exceptions that can leave the functions below.  \<open>RequestError\<close> is what
  httpx raises when a request gets no response (no connection, timeout);
  \<open>HTTPStatusError\<close> is what \<open>raise_for_status\<close> raises.
\<close>

datatype error =
    RequestError
  | HTTPStatusError nat
  | JSONDecodeError
  | TypeError
  | KeyError str
  | AttributeError
  | ValueError str
  | GitCommandError

section \<open>The world outside: HTTP, git and the file system\<close>

text \<open>
  A response as the code reads it: the status, the decoded text, and the parsed body
  (\<open>None\<close> when the text is not JSON, where \<open>json()\<close> raises).  Each call site
  reads either the text or the parsed body, never both.
\<close>

record response =
  status_code :: nat
  text_of :: str
  json_of :: "json option"

text \<open>
  \<open>pathlib\<close>'s pure POSIX paths: a path is its root flag and its components.  Joining
  with a segment that starts with a slash replaces the path; empty components and
  \<open>.\<close> are dropped, \<open>..\<close> is kept.  (The root of exactly two slashes, which
  \<open>pathlib\<close> keeps apart, is not modelled.)
\<close>

datatype path = Path (is_abs: bool) (parts: "str list")

definition segment_parts :: "str \<Rightarrow> str list" where
  "segment_parts seg = filter (\<lambda>p. p \<noteq> [] \<and> p \<noteq> lit ''.'') (split 47 seg)"

definition truediv :: "path \<Rightarrow> str \<Rightarrow> path" where
  "truediv p seg =
     (if seg \<noteq> [] \<and> hd seg = 47 then Path True (segment_parts seg)
      else Path (is_abs p) (parts p @ segment_parts seg))"

definition path_str :: "path \<Rightarrow> str" where
  "path_str p =
     (if is_abs p then 47 # join [47] (parts p)
      else if parts p = [] then lit ''.''
      else join [47] (parts p))"

text \<open>
  The state of the world: the response to a GET of each URL (\<open>None\<close> when the
  request fails without one), for which remote and destination \<open>git clone\<close> succeeds,
  the paths that exist on disk, and the log of the calls of \<open>Repo.clone_from\<close> made
  so far.  Only \<open>clone\<close> changes it.
\<close>

record world =
  http :: "str \<Rightarrow> response option"
  git_ok :: "str \<Rightarrow> path \<Rightarrow> bool"
  existing :: "path set"
  clone_calls :: "(str \<times> path) list"

section \<open>Config\<close>

definition ORG :: str where
  "ORG = lit ''TaskBeacon''"

definition CACHE :: path where
  "CACHE = Path False [lit ''task_cache'']"

definition NON_TASK_REPOS :: "str set" where
  "NON_TASK_REPOS =
     {lit ''task-registry'', lit ''.github'', lit ''psyflow'', lit ''psyflow-mcp'',
      lit ''community'', lit ''taskbeacon.github.io''}"

section \<open>Prompts\<close>

text \<open>
  A message as \<open>Message.dict()\<close> shows it: its role and the text of its content.
\<close>

record message =
  role :: str
  content :: str

definition UserMessage :: "str \<Rightarrow> message" where
  "UserMessage t = \<lparr>role = lit ''user'', content = t\<rparr>"

text \<open>
  The template is its literal text with the two replacement fields; \<open>format\<close> puts the
  arguments in their places.
\<close>

datatype piece = Text str | SourceTask | TargetTask

definition PROMPT_TEMPLATE :: "piece list" where
  "PROMPT_TEMPLATE =
    [Text
      (lit ''Turn my existing ''),
     SourceTask,
     Text
      (lit '' implementation in PsyFlow/TAPs into a ''),
     TargetTask,
     Text
      (lit '' task with as few changes as possible.'' @ [10, 10] @
       lit ''Breakdown:'' @ [10, 10] @
       lit ''Stage 0: Plan'' @ [10] @
       lit ''* Read literature and figure out what a typical ''),
     TargetTask,
     Text
      (lit '' task looks like'' @ [10] @
       lit ''* Define the flow: blocks '' @ [8594] @ lit '' trials '' @ [8594] @ lit '' events'' @ [10] @
       lit ''* Identify stimulus types, response keys, timing parameters, and key output fields'' @ [10, 10] @
       lit ''Stage 1: config.yaml'' @ [10] @
       lit ''* Adapt the existing config.yaml to run a ''),
     TargetTask,
     Text
      (lit '' task'' @ [10] @
       lit ''* Highlight any parameters that need careful review'' @ [10, 10] @
       lit ''Stage 2: Trial logic (src/run_trial.py)'' @ [10] @
       lit ''* Adapt one existing trial template to run a single ''),
     TargetTask,
     Text
      (lit '' trial'' @ [10] @
       lit ''* (Optional) If needed, add helpers in src/utils.py; otherwise skip'' @ [10, 10] @
       lit ''Stage 3: Block/session logic (main.py)'' @ [10] @
       lit ''* Implement block order, feedback screens, and pauses based on the template task'' @ [10] @
       lit ''* Keep the public API consistent with the original task'' @ [10, 10] @
       lit ''Stage 4: README.md'' @ [10] @
       lit ''* Match the structure and tone of existing tasks'' @ [10] @
       lit ''* Cover: purpose, install steps, config details, run instructions, and expected outputs'' @ [10, 10] @
       lit ''Stage 5: Static validation'' @ [10] @
       lit ''* Check that config.yaml keys line up with code references'' @ [10] @
       lit ''* Ensure logged DataFrame columns match the template task'' @ [10] @
       lit ''* Verify naming, docstrings, and imports follow PsyFlow conventions'' @ [10] @
       lit ''* Confirm variables such as timing and triggers match between run_trial.py and config.yaml'' @ [10] @
       lit ''* Spot any logic errors or unused variables'' @ [10, 10] @
       lit ''(No PsychoPy runtime or unit tests are required during this step)'')]"

fun format_piece :: "str \<Rightarrow> str \<Rightarrow> piece \<Rightarrow> str" where
  "format_piece source_task target_task (Text t) = t"
| "format_piece source_task target_task SourceTask = source_task"
| "format_piece source_task target_task TargetTask = target_task"

definition format :: "piece list \<Rightarrow> str \<Rightarrow> str \<Rightarrow> str" where
  "format template source_task target_task =
     concat (map (format_piece source_task target_task) template)"

definition transform_prompt :: "str \<Rightarrow> str \<Rightarrow> message" where
  "transform_prompt source_task target_task =
     UserMessage (format PROMPT_TEMPLATE source_task target_task)"

definition translate_config_prompt :: "str \<Rightarrow> str \<Rightarrow> message list" where
  "translate_config_prompt yaml_text target_language =
     (let intro =
        lit ''Translate selected fields of this PsyFlow config into '' @ target_language @
        lit ''. Translate ONLY:'' @ [10] @
        lit ''  '' @ [8226] @ lit '' subinfo_mapping values'' @ [10] @
        lit ''  '' @ [8226] @ lit '' stimuli entries of type '' @ [39] @ lit ''text'' @ [39] @ lit '' or '' @ [39] @ lit ''textbox'' @ [39] @ lit '' (the '' @ [96] @ lit ''text'' @ [96] @ lit '' field)'' @ [10, 10] @
        lit ''Return the COMPLETE YAML with translated values '' @ [8212] @ lit '' no commentary.''
      in [UserMessage intro, UserMessage yaml_text])"

text \<open>A candidate, the dict with the keys \<open>repo\<close> and \<open>readme_snippet\<close>.\<close>

record candidate =
  c_repo :: scalar
  c_readme_snippet :: str

definition criteria :: str where
  "criteria =
     lit ''- Prefer tasks with the same **response mapping paradigm** (e.g. 2-choice left/right, go/no-go, continuous RT).'' @ [10] @
     lit ''- Prefer tasks whose **trial/block flow** most closely matches the requested task'' @ [8217] @ lit ''s flow.'' @ [10] @
     lit ''- If several are equally close, choose the repo that appears to need the **fewest code edits** (smaller conceptual jump).'' @ [10]"

definition menu_entry :: "candidate \<Rightarrow> str" where
  "menu_entry c = lit ''- **'' @ py_str (c_repo c) @ lit ''**: '' @ c_readme_snippet c"

definition choose_template_prompt :: "str \<Rightarrow> candidate list \<Rightarrow> message list" where
  "choose_template_prompt desc candidates =
     (let intro =
        lit ''You are given a desired task description plus candidate PsyFlow template repositories.'' @ [10, 10] @
        lit ''Select the **one** template that will require the LEAST effort to transform into the desired task, using these tie-breakers:'' @ [10] @
        criteria @
        [10] @
        lit ''Respond with **only** the repo name on a single line.'' @ [10] @
        lit ''If NONE of the templates are reasonably close, respond with '' @ [96] @ lit ''NONE'' @ [96] @ lit ''.'';
          joined = join [10] (map menu_entry candidates);
          menu = (if joined \<noteq> [] then joined else lit ''(no templates found)'')
      in [UserMessage intro,
          UserMessage (lit ''Desired task:'' @ [10] @ desc),
          UserMessage (lit ''Candidate templates:'' @ [10] @ menu)])"

section \<open>Helpers\<close>

text \<open>
  The coroutines are modelled as they run when awaited one after the other: a function
  of the world, which returns the world it leaves when it can change it.  The source's
  \<open>_PROMPT_TEMPLATE\<close>, \<open>_github_repos\<close> and \<open>_repo_branches\<close> are written without
  their leading underscore.

  \<open>raise_for_status\<close> lets the 2xx responses through.
\<close>

text \<open>\<open>await c.get(url)\<close>.\<close>

definition get :: "world \<Rightarrow> str \<Rightarrow> error + response" where
  "get w url = (case http w url of None \<Rightarrow> Inl RequestError | Some r \<Rightarrow> Inr r)"

definition raise_for_status :: "response \<Rightarrow> error + unit" where
  "raise_for_status r =
     (if 200 \<le> status_code r \<and> status_code r < 300 then Inr ()
      else Inl (HTTPStatusError (status_code r)))"

definition response_json :: "response \<Rightarrow> error + json" where
  "response_json r = (case json_of r of None \<Rightarrow> Inl JSONDecodeError | Some j \<Rightarrow> Inr j)"

text \<open>
  \<open>for x in v\<close>: a list gives its elements, a dict its keys, a string its characters;
  nothing else can be iterated.
\<close>

fun iter :: "json \<Rightarrow> error + json list" where
  "iter (JList xs) = Inr xs"
| "iter (JDict kvs) = Inr (map (\<lambda>kv. JScalar (SStr (fst kv))) kvs)"
| "iter (JScalar (SStr t)) = Inr (map (\<lambda>c. JScalar (SStr [c])) t)"
| "iter (JScalar v) = Inl TypeError"

text \<open>\<open>v[k]\<close> for a string \<open>k\<close>: only a dict can be indexed by a string.\<close>

fun getitem :: "json \<Rightarrow> str \<Rightarrow> error + json" where
  "getitem (JDict kvs) k = (case map_of kvs k of None \<Rightarrow> Inl (KeyError k) | Some v \<Rightarrow> Inr v)"
| "getitem v k = Inl TypeError"

text \<open>Hashing, as a set membership test does it: lists and dicts are unhashable.\<close>

fun hashable :: "json \<Rightarrow> error + scalar" where
  "hashable (JScalar v) = Inr v"
| "hashable v = Inl TypeError"

definition repos_url :: str where
  "repos_url = lit ''https://api.github.com/orgs/'' @ ORG @ lit ''/repos?per_page=100''"

definition branches_url :: "scalar \<Rightarrow> str" where
  "branches_url repo =
     lit ''https://api.github.com/repos/'' @ ORG @ [47] @ py_str repo @
     lit ''/branches?per_page=100''"

definition readme_url :: "scalar \<Rightarrow> str" where
  "readme_url repo =
     lit ''https://raw.githubusercontent.com/'' @ ORG @ [47] @ py_str repo @
     lit ''/main/README.md''"

definition clone_url :: "str \<Rightarrow> str" where
  "clone_url repo = lit ''https://github.com/'' @ ORG @ [47] @ repo @ lit ''.git''"

definition github_repos :: "world \<Rightarrow> error + json" where
  "github_repos w =
     (let url = repos_url
      in case get w url of
           Inl e \<Rightarrow> Inl e
         | Inr r \<Rightarrow> (case raise_for_status r of Inl e \<Rightarrow> Inl e | Inr u \<Rightarrow> response_json r))"

text \<open>The comprehension \<open>[b["name"] for b in ...]\<close>: the first failing element raises.\<close>

fun names_of :: "json list \<Rightarrow> error + json list" where
  "names_of [] = Inr []"
| "names_of (b # bs) =
     (case getitem b (lit ''name'') of
        Inl e \<Rightarrow> Inl e
      | Inr n \<Rightarrow> (case names_of bs of Inl e \<Rightarrow> Inl e | Inr ns \<Rightarrow> Inr (n # ns)))"

definition repo_branches :: "scalar \<Rightarrow> world \<Rightarrow> error + json list" where
  "repo_branches repo w =
     (let url = branches_url repo
      in case get w url of
           Inl e \<Rightarrow> Inl e
         | Inr r \<Rightarrow>
             (case response_json r of
                Inl e \<Rightarrow> Inl e
              | Inr j \<Rightarrow>
                  (case iter j of
                     Inl e \<Rightarrow> Inl e
                   | Inr bs \<Rightarrow>
                       (case names_of bs of
                          Inl e \<Rightarrow> Inl e
                        | Inr ns \<Rightarrow> Inr (take 20 ns)))))"

text \<open>\<open>v not in NON_TASK_REPOS\<close> for a hashable \<open>v\<close>: the set holds strings only.\<close>

fun not_in_NON_TASK_REPOS :: "scalar \<Rightarrow> bool" where
  "not_in_NON_TASK_REPOS (SStr n) = (n \<notin> NON_TASK_REPOS)"
| "not_in_NON_TASK_REPOS v = True"

text \<open>
  The comprehension of \<open>task_repos\<close>: the condition reads \<open>r["name"]\<close> and tests it
  against the set, and the element is \<open>r["name"]\<close> again.
\<close>

fun task_names :: "json list \<Rightarrow> error + scalar list" where
  "task_names [] = Inr []"
| "task_names (r # rs) =
     (case getitem r (lit ''name'') of
        Inl e \<Rightarrow> Inl e
      | Inr n \<Rightarrow>
          (case hashable n of
             Inl e \<Rightarrow> Inl e
           | Inr v \<Rightarrow>
               (case task_names rs of
                  Inl e \<Rightarrow> Inl e
                | Inr vs \<Rightarrow> Inr (if not_in_NON_TASK_REPOS v then v # vs else vs))))"

definition task_repos :: "world \<Rightarrow> error + scalar list" where
  "task_repos w =
     (case github_repos w of
        Inl e \<Rightarrow> Inl e
      | Inr j \<Rightarrow> (case iter j of Inl e \<Rightarrow> Inl e | Inr rs \<Rightarrow> task_names rs))"

text \<open>
  \<open>Repo.clone_from(url, dest, depth=1)\<close>: the call is logged; when git succeeds the
  destination and the directories above it exist afterwards, when it fails the disk is
  as before.
\<close>

definition clone_from :: "str \<Rightarrow> path \<Rightarrow> world \<Rightarrow> (error + unit) \<times> world" where
  "clone_from url dest w =
     (let w1 = w\<lparr>clone_calls := clone_calls w @ [(url, dest)]\<rparr>
      in if git_ok w url dest
         then (Inr (),
               w1\<lparr>existing := existing w \<union> Path (is_abs dest) ` set (prefixes (parts dest))\<rparr>)
         else (Inl GitCommandError, w1))"

definition clone :: "str \<Rightarrow> world \<Rightarrow> (error + path) \<times> world" where
  "clone repo w =
     (let dest = truediv CACHE repo
      in if dest \<in> existing w then (Inr dest, w)
         else (case clone_from (clone_url repo) dest w of
                 (Inl e, w') \<Rightarrow> (Inl e, w')
               | (Inr u, w') \<Rightarrow> (Inr dest, w')))"

section \<open>Tools\<close>

datatype build_result =
    Transformation (prompt: str) (template_path: str)
  | Selection (prompt_messages: "message list") (note_text: str)

text \<open>
  \<open>next((r for r in repos if source_task.lower() in r.lower()), None)\<close>: the generator
  is consumed up to the first match, so an entry without \<open>lower\<close> raises only when it
  comes before it.
\<close>

fun first_match :: "(str \<Rightarrow> str) \<Rightarrow> str \<Rightarrow> scalar list \<Rightarrow> error + str option" where
  "first_match lower source_task [] = Inr None"
| "first_match lower source_task (SStr r # rs) =
     (if sublist (lower source_task) (lower r) then Inr (Some r)
      else first_match lower source_task rs)"
| "first_match lower source_task (v # rs) = Inl AttributeError"

text \<open>\<open>t.replace(old, new)\<close> for \<open>old\<close> and \<open>new\<close> of one code point each.\<close>

definition replace :: "nat \<Rightarrow> nat \<Rightarrow> str \<Rightarrow> str" where
  "replace old new t = map (\<lambda>c. if c = old then new else c) t"

text \<open>
  The snippet of a README response: the first 2000 code points of its text with every
  newline replaced by a space when the status is 200, the empty string otherwise.
\<close>

definition snippet_of :: "response \<Rightarrow> str" where
  "snippet_of rd =
     (if status_code rd = 200 then replace 10 32 (take 2000 (text_of rd)) else [])"

text \<open>The loop of the second branch, \<open>snippets\<close> being the list built so far.\<close>

fun gather_snippets :: "world \<Rightarrow> scalar list \<Rightarrow> candidate list \<Rightarrow> error + candidate list" where
  "gather_snippets w [] snippets = Inr snippets"
| "gather_snippets w (repo # repos) snippets =
     (let url = readme_url repo
      in case get w url of
           Inl e \<Rightarrow> Inl e
         | Inr rd \<Rightarrow>
             (let snippet = snippet_of rd
              in gather_snippets w repos
                   (snippets @ [\<lparr>c_repo = repo, c_readme_snippet = snippet\<rparr>])))"

definition NOTE :: str where
  "NOTE = lit ''Reply with chosen repo, then call build_task again with source_task=<repo>.''"

definition build_task ::
  "(str \<Rightarrow> str) \<Rightarrow> str \<Rightarrow> str option \<Rightarrow> world \<Rightarrow> (error + build_result) \<times> world" where
  "build_task lower target_task source_task w =
     (case task_repos w of
        Inl e \<Rightarrow> (Inl e, w)
      | Inr repos \<Rightarrow>
          if source_task \<noteq> None \<and> source_task \<noteq> Some []
          then (case first_match lower (the source_task) repos of
                  Inl e \<Rightarrow> (Inl e, w)
                | Inr found \<Rightarrow>
                    if found = None \<or> found = Some []
                    then (Inl (ValueError (lit ''Template repo not found.'')), w)
                    else (case clone (the found) w of
                            (Inl e, w') \<Rightarrow> (Inl e, w')
                          | (Inr p, w') \<Rightarrow>
                              (Inr (Transformation
                                      (content (transform_prompt (the source_task) target_task))
                                      (path_str p)),
                               w')))
          else (case gather_snippets w repos [] of
                  Inl e \<Rightarrow> (Inl e, w)
                | Inr snippets \<Rightarrow>
                    (let msgs = choose_template_prompt
                                  (lit ''A '' @ target_task @ lit '' task.'') snippets
                     in (Inr (Selection msgs NOTE), w))))"

section \<open>Example worlds\<close>

text \<open>
  Worlds on which the properties below are exercised.  A repository object of the
  organisation listing and a branch object of the branch listing carry their name among
  other fields.
\<close>

text \<open>
  The case mapping the examples are run with: A-Z and the capital letters of Latin-1
  (U+00C0 to U+00DE without the multiplication sign U+00D7) go to their small letters,
  one code point at a time.  It agrees with \<open>str.lower()\<close> on the strings whose code
  points are all below U+0100, and so on every string of the examples, which are ASCII;
  it is not \<open>str.lower()\<close> beyond them.
\<close>

definition lower_cp :: "nat \<Rightarrow> nat" where
  "lower_cp c =
     (if (65 \<le> c \<and> c \<le> 90) \<or> (192 \<le> c \<and> c \<le> 222 \<and> c \<noteq> 215) then c + 32 else c)"

definition example_lower :: "str \<Rightarrow> str" where
  "example_lower t = map lower_cp t"

definition repo_obj :: "str \<Rightarrow> json" where
  "repo_obj n =
     JDict [(lit ''id'', JScalar (SInt 7)), (lit ''name'', JScalar (SStr n)),
            (lit ''private'', JScalar (SBool False))]"

definition branch_obj :: "str \<Rightarrow> json" where
  "branch_obj n =
     JDict [(lit ''name'', JScalar (SStr n)), (lit ''protected'', JScalar (SBool False))]"

definition json_response :: "nat \<Rightarrow> json \<Rightarrow> response" where
  "json_response code j = \<lparr>status_code = code, text_of = [], json_of = Some j\<rparr>"

definition text_response :: "nat \<Rightarrow> str \<Rightarrow> response" where
  "text_response code t = \<lparr>status_code = code, text_of = t, json_of = None\<rparr>"

text \<open>
  A world whose organisation has the repositories \<open>names\<close>, every other URL being
  answered by \<open>other\<close>; git works, and only the cache directory exists.
\<close>

definition catalog_world :: "str list \<Rightarrow> (str \<Rightarrow> response option) \<Rightarrow> world" where
  "catalog_world names other =
     \<lparr>http = (\<lambda>url. if url = repos_url
                      then Some (json_response 200 (JList (map repo_obj names)))
                      else other url),
      git_ok = (\<lambda>url dest. True),
      existing = {CACHE},
      clone_calls = []\<rparr>"

definition demo_names :: "str list" where
  "demo_names = [lit ''stroop-task'', lit ''gonogo-task'', lit ''task-registry'']"

text \<open>The first repository has a README, the others answer 404.\<close>

definition demo_world :: world where
  "demo_world =
     catalog_world demo_names
       (\<lambda>url. if url = readme_url (SStr (lit ''stroop-task''))
              then Some (text_response 200 (lit ''# Stroop'' @ [10] @ lit ''A task''))
              else Some (text_response 404 (lit ''404: Not Found'')))"

text \<open>Only the organisation listing is reachable: every other request fails.\<close>

definition offline_world :: world where
  "offline_world = catalog_world demo_names (\<lambda>url. None)"

text \<open>Two names that differ in case only, one of them in the exclusion set.\<close>

definition case_world :: world where
  "case_world =
     catalog_world [lit ''psyflow'', lit ''PsyFlow'', lit ''stroop-task'']
       (\<lambda>url. Some (text_response 404 (lit ''404: Not Found'')))"

text \<open>A world that answers every request with the same response.\<close>

definition constant_world :: "response \<Rightarrow> world" where
  "constant_world rsp =
     \<lparr>http = (\<lambda>url. Some rsp), git_ok = (\<lambda>url dest. True), existing = {CACHE},
      clone_calls = []\<rparr>"

definition eleven_branches :: "str list" where
  "eleven_branches =
     [lit ''main'', lit ''dev'', lit ''b03'', lit ''b04'', lit ''b05'', lit ''b06'', lit ''b07'',
      lit ''b08'', lit ''b09'', lit ''b10'', lit ''b11'']"

text \<open>GitHub's answer for a repository it does not know: status 404 and an error object.\<close>

definition not_found_response :: response where
  "not_found_response =
     json_response 404
       (JDict [(lit ''message'', JScalar (SStr (lit ''Not Found''))),
               (lit ''documentation_url'', JScalar (SStr (lit ''https://docs.github.com/rest''))),
               (lit ''status'', JScalar (SStr (lit ''404'')))])"

lemmas world_simps =
  catalog_world_def demo_world_def offline_world_def case_world_def constant_world_def
  demo_names_def repo_obj_def branch_obj_def json_response_def text_response_def
  repos_url_def readme_url_def branches_url_def clone_url_def ORG_def lit_def
  task_repos_def github_repos_def get_def raise_for_status_def response_json_def
  NON_TASK_REPOS_def

section \<open>Properties of the prompts\<close>

text \<open>
  C9.  For every document text and target language, \<open>translate_config_prompt\<close> returns
  exactly two messages, and the content of the second one is the document text,
  unmodified.
\<close>

theorem translate_config_prompt_second_is_document:
  "length (translate_config_prompt yaml_text target_language) = 2 \<and>
   content (translate_config_prompt yaml_text target_language ! 1) = yaml_text"
  by (simp add: translate_config_prompt_def UserMessage_def)
section \<open>Properties of the catalog\<close>

lemma get_error: "get w url = Inl e \<Longrightarrow> e = RequestError"
  by (auto simp: get_def split: option.splits)

lemma iter_error: "iter j = Inl e \<Longrightarrow> e = TypeError"
  by (cases j rule: iter.cases) auto

lemma getitem_error: "getitem r k = Inl e \<Longrightarrow> e = TypeError \<or> e = KeyError k"
  by (cases r) (auto split: option.splits)

lemma hashable_error: "hashable n = Inl e \<Longrightarrow> e = TypeError"
  by (cases n) auto

lemma task_names_error:
  "task_names rs = Inl e \<Longrightarrow> e = TypeError \<or> e = KeyError (lit ''name'')"
proof (induction rs)
  case Nil
  then show ?case by simp
next
  case (Cons r rs)
  then show ?case
    by (auto split: sum.splits dest: getitem_error hashable_error)
qed

lemma github_repos_error:
  "github_repos w = Inl e \<Longrightarrow> e = RequestError \<or> e = JSONDecodeError \<or> (\<exists>c. e = HTTPStatusError c)"
  by (auto simp: github_repos_def raise_for_status_def response_json_def
      split: sum.splits if_splits option.splits dest: get_error)

lemma task_repos_not_ValueError: "task_repos w \<noteq> Inl (ValueError m)"
  by (auto simp: task_repos_def split: sum.splits
      dest: github_repos_error iter_error task_names_error)

lemma task_names_excluded:
  "task_names rs = Inr names \<Longrightarrow> n \<in> NON_TASK_REPOS \<Longrightarrow> SStr n \<notin> set names"
proof (induction rs arbitrary: names)
  case Nil
  then show ?case by simp
next
  case (Cons r rs)
  then show ?case by (auto split: sum.splits if_splits)
qed

lemma task_names_strings:
  "map (\<lambda>r. getitem r (lit ''name'')) rs = map (\<lambda>n. Inr (JScalar (SStr n))) ns \<Longrightarrow>
   task_names rs = Inr (map SStr (filter (\<lambda>n. n \<notin> NON_TASK_REPOS) ns))"
proof (induction rs arbitrary: ns)
  case Nil
  then show ?case by simp
next
  case (Cons r rs)
  then obtain n ns' where ns: "ns = n # ns'" by (cases ns) auto
  with Cons.prems have h: "getitem r (lit ''name'') = Inr (JScalar (SStr n))"
    and t: "map (\<lambda>r. getitem r (lit ''name'')) rs = map (\<lambda>n. Inr (JScalar (SStr n))) ns'"
    by simp_all
  from Cons.IH [OF t] h ns show ?case by simp
qed

text \<open>
  C4.  No name of the exclusion set is ever in the result of \<open>task_repos\<close>, whatever the
  hosting API answers; and the test is an exact, case-sensitive match on the name as the
  API gives it: when the listing is a list of objects with the string names \<open>ns\<close>, the
  result is \<open>ns\<close> without exactly the members of \<open>NON_TASK_REPOS\<close>, in order.
\<close>

theorem task_repos_excludes_non_task_repos:
  "(task_repos w = Inr names \<longrightarrow> (\<forall>n\<in>NON_TASK_REPOS. SStr n \<notin> set names)) \<and>
   (github_repos w = Inr (JList rs) \<and>
    map (\<lambda>r. getitem r (lit ''name'')) rs = map (\<lambda>n. Inr (JScalar (SStr n))) ns \<longrightarrow>
    task_repos w = Inr (map SStr (filter (\<lambda>n. n \<notin> NON_TASK_REPOS) ns)))"
proof (intro conjI impI)
  assume "task_repos w = Inr names"
  then obtain j rs' where "iter j = Inr rs'" "task_names rs' = Inr names"
    by (auto simp: task_repos_def split: sum.splits)
  then show "\<forall>n\<in>NON_TASK_REPOS. SStr n \<notin> set names"
    using task_names_excluded by blast
next
  assume "github_repos w = Inr (JList rs) \<and>
    map (\<lambda>r. getitem r (lit ''name'')) rs = map (\<lambda>n. Inr (JScalar (SStr n))) ns"
  then show "task_repos w = Inr (map SStr (filter (\<lambda>n. n \<notin> NON_TASK_REPOS) ns))"
    by (simp add: task_repos_def task_names_strings)
qed

theorem task_repos_excludes_non_task_repos_witness:
  "github_repos case_world =
     Inr (JList (map repo_obj [lit ''psyflow'', lit ''PsyFlow'', lit ''stroop-task''])) \<and>
   lit ''psyflow'' \<in> NON_TASK_REPOS \<and>
   task_repos case_world = Inr [SStr (lit ''PsyFlow''), SStr (lit ''stroop-task'')] \<and>
   SStr (lit ''psyflow'') \<notin> set [SStr (lit ''PsyFlow''), SStr (lit ''stroop-task'')]"
proof -
  let ?ns = "[lit ''psyflow'', lit ''PsyFlow'', lit ''stroop-task'']"
  have g: "github_repos case_world = Inr (JList (map repo_obj ?ns))"
    by (simp add: world_simps)
  have m: "map (\<lambda>r. getitem r (lit ''name'')) (map repo_obj ?ns) =
           map (\<lambda>n. Inr (JScalar (SStr n))) ?ns"
    by (simp add: repo_obj_def lit_def)
  have "task_repos case_world = Inr (map SStr (filter (\<lambda>n. n \<notin> NON_TASK_REPOS) ?ns))"
    using task_repos_excludes_non_task_repos [of case_world _ "map repo_obj ?ns" ?ns] g m
    by blast
  then show ?thesis using g by (simp add: NON_TASK_REPOS_def lit_def)
qed

lemma demo_catalog:
  "task_repos demo_world = Inr (map SStr [lit ''stroop-task'', lit ''gonogo-task''])"
  by (simp add: world_simps)

section \<open>Properties of the branch listing\<close>

text \<open>
  C7.  The claim gives \<open>list_branches\<close> a result of at most 10 names; the slice in the
  code is \<open>[:20]\<close>.  For a repository with eleven branches all eleven are returned.
\<close>

theorem repo_branches_returns_eleven:
  "repo_branches (SStr (lit ''stroop-task''))
     (constant_world (json_response 200 (JList (map branch_obj eleven_branches)))) =
     Inr (map (\<lambda>n. JScalar (SStr n)) eleven_branches) \<and>
   length eleven_branches = 11"
  by (simp add: repo_branches_def world_simps eleven_branches_def)

text \<open>
  C8.  The claim gives \<open>list_branches\<close> the empty result on a non-success response; the
  code does not look at the status and reads the body as a list of branches.  On the
  error object that comes with a 404 it iterates over the keys and raises.
\<close>

theorem repo_branches_not_found_raises:
  "status_code not_found_response = 404 \<and>
   repo_branches (SStr (lit ''no-such-repo'')) (constant_world not_found_response) =
     Inl TypeError"
  by (simp add: repo_branches_def world_simps not_found_response_def)

section \<open>Properties of the cache\<close>

lemma clone_from_existing:
  "clone_from url dest w = (Inr u, w') \<Longrightarrow> dest \<in> existing w'"
  by (cases dest) (auto simp: clone_from_def Let_def split: if_splits)

lemma clone_from_calls:
  "clone_from url dest w = (res, w') \<Longrightarrow> clone_calls w' = clone_calls w @ [(url, dest)]"
  by (auto simp: clone_from_def Let_def split: if_splits)

text \<open>
  C3.  \<open>clone\<close> is idempotent.  A call that finds its destination on disk returns it and
  changes nothing.  When a call returns a path, a second call for the same name returns
  the same path and changes nothing, so that the two calls together have called
  \<open>Repo.clone_from\<close> at most once.
\<close>

theorem clone_idempotent:
  "(truediv CACHE r \<in> existing w \<longrightarrow> clone r w = (Inr (truediv CACHE r), w)) \<and>
   (clone r w = (Inr p, w1) \<longrightarrow>
      clone r w1 = (Inr p, w1) \<and> p = truediv CACHE r \<and>
      length (clone_calls w1) \<le> Suc (length (clone_calls w)))"
proof -
  have hit: "clone r w = (Inr (truediv CACHE r), w)" if "truediv CACHE r \<in> existing w"
    using that by (simp add: clone_def)
  have twice: "clone r w1 = (Inr p, w1) \<and> p = truediv CACHE r \<and>
        length (clone_calls w1) \<le> Suc (length (clone_calls w))"
    if a: "clone r w = (Inr p, w1)"
  proof (cases "truediv CACHE r \<in> existing w")
    case True
    then show ?thesis using a by (auto simp: clone_def)
  next
    case False
    then obtain u where cf: "clone_from (clone_url r) (truediv CACHE r) w = (Inr u, w1)"
      and p: "p = truediv CACHE r"
      using a by (auto simp: clone_def Let_def split: prod.splits sum.splits)
    from clone_from_existing [OF cf] have "truediv CACHE r \<in> existing w1" .
    then have "clone r w1 = (Inr p, w1)" using p by (simp add: clone_def)
    then show ?thesis using p clone_from_calls [OF cf] by simp
  qed
  show ?thesis using hit twice by blast
qed

lemma demo_clone:
  "clone (lit ''stroop-task'') demo_world =
     (Inr (Path False [lit ''task_cache'', lit ''stroop-task'']),
      demo_world\<lparr>existing := {CACHE, Path False [], Path False [lit ''task_cache''],
                               Path False [lit ''task_cache'', lit ''stroop-task'']},
                 clone_calls := [(lit ''https://github.com/TaskBeacon/stroop-task.git'',
                                  Path False [lit ''task_cache'', lit ''stroop-task''])]\<rparr>)"
  by (auto simp: clone_def clone_from_def truediv_def CACHE_def segment_parts_def
      world_simps Let_def)

theorem clone_idempotent_witness:
  "truediv CACHE (lit ''stroop-task'') \<notin> existing demo_world \<and>
   fst (clone (lit ''stroop-task'') demo_world) =
     Inr (Path False [lit ''task_cache'', lit ''stroop-task'']) \<and>
   length (clone_calls (snd (clone (lit ''stroop-task'') demo_world))) = 1 \<and>
   truediv CACHE (lit ''stroop-task'') \<in> existing (snd (clone (lit ''stroop-task'') demo_world)) \<and>
   clone (lit ''stroop-task'') (snd (clone (lit ''stroop-task'') demo_world)) =
     (Inr (Path False [lit ''task_cache'', lit ''stroop-task'']),
      snd (clone (lit ''stroop-task'') demo_world))"
proof -
  let ?r = "lit ''stroop-task''"
  let ?p = "Path False [lit ''task_cache'', lit ''stroop-task'']"
  let ?w1 = "snd (clone ?r demo_world)"
  have h: "clone ?r demo_world = (Inr ?p, ?w1)" by (simp add: demo_clone)
  have d: "truediv CACHE ?r = ?p"
    by (simp add: truediv_def CACHE_def segment_parts_def lit_def)
  have fresh: "truediv CACHE ?r \<notin> existing demo_world"
    by (simp add: d) (simp add: world_simps CACHE_def)
  have again: "clone ?r ?w1 = (Inr ?p, ?w1)"
    using clone_idempotent [of ?r demo_world ?p ?w1] h by blast
  have hit: "truediv CACHE ?r \<in> existing ?w1"
    by (simp add: d demo_clone)
  have one: "length (clone_calls ?w1) = 1" by (simp add: demo_clone)
  have f: "fst (clone ?r demo_world) = Inr ?p" by (simp add: demo_clone)
  show ?thesis by (intro conjI fresh f one hit again)
qed

section \<open>Properties of \<open>build_task\<close> with a source\<close>

lemma first_match_none:
  "\<forall>n\<in>set names. \<not> sublist (lower src) (lower n) \<Longrightarrow>
   first_match lower src (map SStr names) = Inr None"
  by (induction names) auto

lemma first_match_first:
  "\<forall>n\<in>set pre. \<not> sublist (lower src) (lower n) \<Longrightarrow> sublist (lower src) (lower r) \<Longrightarrow>
   first_match lower src (map SStr (pre @ r # post)) = Inr (Some r)"
  by (induction pre) auto

lemma format_template:
  "format [Text a0, SourceTask, Text a1, TargetTask, Text a2, TargetTask, Text a3, TargetTask,
           Text a4, TargetTask, Text a5] s t =
   a0 @ s @ a1 @ t @ a2 @ t @ a3 @ t @ a4 @ t @ a5"
  by (simp add: format_def)

lemma example_lower_empty: "\<forall>t. (example_lower t = []) = (t = [])"
  by (simp add: example_lower_def)

lemma sublist_demo_match:
  "sublist (example_lower (lit ''STROOP'')) (example_lower (lit ''stroop-task''))"
  by (simp add: example_lower_def lower_cp_def lit_def sublist_code)

lemma sublist_demo_no_match:
  "\<not> sublist (example_lower (lit ''flanker'')) (example_lower (lit ''stroop-task'')) \<and>
   \<not> sublist (example_lower (lit ''flanker'')) (example_lower (lit ''gonogo-task''))"
  by (simp add: example_lower_def lower_cp_def lit_def sublist_code)

text \<open>
  C1.  Let \<open>lower\<close> stand for \<open>str.lower\<close>: any function that, like it, gives the empty
  string for the empty string only.  Let the catalog be a list of names in which \<open>r\<close> is
  the first one whose lowering contains the lowering of the non-empty \<open>source_task\<close>, and
  let \<open>clone r\<close> return the path \<open>p\<close>.  Then \<open>build_task\<close> returns the record whose
  prompt is the template with \<open>source_task\<close> and \<open>target_task\<close> put verbatim in the
  places of its fields, and whose \<open>template_path\<close> is \<open>p\<close> as a string; the world is
  the one \<open>clone r\<close> leaves.
\<close>

theorem build_task_with_source_resolves_first_match:
  assumes "task_repos w = Inr (map SStr (pre @ r # post))"
    and "source_task \<noteq> []"
    and "\<forall>t. (lower t = []) = (t = [])"
    and "\<forall>n\<in>set pre. \<not> sublist (lower source_task) (lower n)"
    and "sublist (lower source_task) (lower r)"
    and "clone r w = (Inr p, w')"
  shows "\<exists>a0 a1 a2 a3 a4 a5.
           PROMPT_TEMPLATE =
             [Text a0, SourceTask, Text a1, TargetTask, Text a2, TargetTask, Text a3,
              TargetTask, Text a4, TargetTask, Text a5] \<and>
           build_task lower target_task (Some source_task) w =
             (Inr (Transformation
                (a0 @ source_task @ a1 @ target_task @ a2 @ target_task @ a3 @ target_task @
                 a4 @ target_task @ a5)
                (path_str p)), w')"
proof -
  have r: "r \<noteq> []"
  proof
    assume "r = []"
    then have "lower r = []" using assms(3) by simp
    then have "lower source_task = []" using assms(5) by simp
    then show False using assms(2,3) by simp
  qed
  have fm: "first_match lower source_task (map SStr (pre @ r # post)) = Inr (Some r)"
    using assms(4,5) by (rule first_match_first)
  have bt: "build_task lower target_task (Some source_task) w =
     (Inr (Transformation (format PROMPT_TEMPLATE source_task target_task) (path_str p)), w')"
    using assms(1,2,6) fm r
    by (simp add: build_task_def transform_prompt_def UserMessage_def)
  show ?thesis
    unfolding bt unfolding PROMPT_TEMPLATE_def format_template by blast
qed

theorem build_task_with_source_resolves_first_match_witness:
  "task_repos demo_world = Inr (map SStr ([] @ lit ''stroop-task'' # [lit ''gonogo-task''])) \<and>
   lit ''STROOP'' \<noteq> [] \<and>
   (\<forall>t. (example_lower t = []) = (t = [])) \<and>
   sublist (example_lower (lit ''STROOP'')) (example_lower (lit ''stroop-task'')) \<and>
   fst (clone (lit ''stroop-task'') demo_world) =
     Inr (Path False [lit ''task_cache'', lit ''stroop-task'']) \<and>
   (\<exists>a b. fst (build_task example_lower (lit ''flanker'') (Some (lit ''STROOP'')) demo_world) =
            Inr (Transformation (a @ lit ''STROOP'' @ b) (lit ''task_cache/stroop-task''))) \<and>
   snd (build_task example_lower (lit ''flanker'') (Some (lit ''STROOP'')) demo_world) =
     snd (clone (lit ''stroop-task'') demo_world)"
proof -
  let ?r = "lit ''stroop-task''"
  let ?p = "Path False [lit ''task_cache'', lit ''stroop-task'']"
  let ?w1 = "snd (clone ?r demo_world)"
  have cat: "task_repos demo_world = Inr (map SStr ([] @ ?r # [lit ''gonogo-task'']))"
    using demo_catalog by simp
  have ne: "lit ''STROOP'' \<noteq> []" by (simp add: lit_def)
  have pre: "\<forall>n\<in>set []. \<not> sublist (example_lower (lit ''STROOP'')) (example_lower n)"
    by simp
  have cl: "clone ?r demo_world = (Inr ?p, ?w1)" by (simp add: demo_clone)
  have f: "fst (clone ?r demo_world) = Inr ?p" by (simp add: demo_clone)
  have ps: "path_str ?p = lit ''task_cache/stroop-task''"
    by (simp add: path_str_def lit_def)
  from build_task_with_source_resolves_first_match
    [OF cat ne example_lower_empty pre sublist_demo_match cl, of "lit ''flanker''"]
  obtain a0 a1 a2 a3 a4 a5 where
    bt: "build_task example_lower (lit ''flanker'') (Some (lit ''STROOP'')) demo_world =
      (Inr (Transformation
         (a0 @ lit ''STROOP'' @ a1 @ lit ''flanker'' @ a2 @ lit ''flanker'' @ a3 @
          lit ''flanker'' @ a4 @ lit ''flanker'' @ a5)
         (path_str ?p)), ?w1)"
    by blast
  have ex: "\<exists>a b. fst (build_task example_lower (lit ''flanker'') (Some (lit ''STROOP''))
                         demo_world) =
            Inr (Transformation (a @ lit ''STROOP'' @ b) (lit ''task_cache/stroop-task''))"
    unfolding bt ps by auto
  have s: "snd (build_task example_lower (lit ''flanker'') (Some (lit ''STROOP'')) demo_world) =
           ?w1"
    unfolding bt by simp
  show ?thesis by (intro conjI cat ne example_lower_empty sublist_demo_match f ex s)
qed

text \<open>
  C2.  Let \<open>lower\<close> stand for \<open>str.lower\<close>, whatever function it is.  When the catalog
  is a list of names none of whose lowerings contains the lowering of the non-empty
  \<open>source_task\<close>, \<open>build_task\<close> fails with the error of a template that is not found
  (the \<open>ValueError\<close> with the message \<open>Template repo not found.\<close>) and leaves the world
  as it was: nothing is cloned and no directory appears.
\<close>

theorem build_task_unmatched_source_fails:
  assumes "task_repos w = Inr (map SStr names)"
    and "source_task \<noteq> []"
    and "\<forall>n\<in>set names. \<not> sublist (lower source_task) (lower n)"
  shows "build_task lower target_task (Some source_task) w =
           (Inl (ValueError (lit ''Template repo not found.'')), w)"
  using assms by (simp add: build_task_def first_match_none)

theorem build_task_unmatched_source_fails_witness:
  "task_repos demo_world = Inr (map SStr [lit ''stroop-task'', lit ''gonogo-task'']) \<and>
   lit ''flanker'' \<noteq> [] \<and>
   \<not> sublist (example_lower (lit ''flanker'')) (example_lower (lit ''stroop-task'')) \<and>
   \<not> sublist (example_lower (lit ''flanker'')) (example_lower (lit ''gonogo-task'')) \<and>
   build_task example_lower (lit ''nback'') (Some (lit ''flanker'')) demo_world =
     (Inl (ValueError (lit ''Template repo not found.'')), demo_world)"
proof -
  have ne: "lit ''flanker'' \<noteq> []" by (simp add: lit_def)
  have no: "\<forall>n\<in>set [lit ''stroop-task'', lit ''gonogo-task''].
              \<not> sublist (example_lower (lit ''flanker'')) (example_lower n)"
    using sublist_demo_no_match by simp
  note bt = build_task_unmatched_source_fails
    [of demo_world "[lit ''stroop-task'', lit ''gonogo-task'']" "lit ''flanker''"
        example_lower "lit ''nback''", OF demo_catalog ne no]
  show ?thesis
    by (intro conjI demo_catalog ne bt conjunct1 [OF sublist_demo_no_match]
        conjunct2 [OF sublist_demo_no_match])
qed

section \<open>Properties of \<open>build_task\<close> without a source\<close>

lemma gather_snippets_error: "gather_snippets w repos acc = Inl e \<Longrightarrow> e = RequestError"
  by (induction repos arbitrary: acc) (auto split: sum.splits dest: get_error)

lemma gather_snippets_answered:
  "\<forall>r\<in>set repos. http w (readme_url r) \<noteq> None \<Longrightarrow>
   gather_snippets w repos acc =
     Inr (acc @ map (\<lambda>r. \<lparr>c_repo = r,
                            c_readme_snippet = snippet_of (the (http w (readme_url r)))\<rparr>) repos)"
  by (induction repos arbitrary: acc) (auto simp: get_def)

lemma build_task_menu_frame: "snd (build_task lower target_task None w) = w"
  by (simp add: build_task_def split: sum.splits)

text \<open>
  C10.  With the empty string as source, \<open>build_task\<close> is \<open>build_task\<close> without a
  source: it leaves the world as it was (no clone), never fails with the error of a
  template that is not found, and never returns the record of the first branch.
\<close>

theorem build_task_empty_source_is_absent:
  "build_task lower target_task (Some []) w = build_task lower target_task None w \<and>
   snd (build_task lower target_task (Some []) w) = w \<and>
   fst (build_task lower target_task (Some []) w) \<noteq> Inl (ValueError m) \<and>
   (\<forall>p tp. fst (build_task lower target_task (Some []) w) \<noteq> Inr (Transformation p tp))"
proof -
  have eq: "build_task lower target_task (Some []) w = build_task lower target_task None w"
    by (simp add: build_task_def split: sum.splits)
  have nv: "fst (build_task lower target_task None w) \<noteq> Inl (ValueError m)"
    using task_repos_not_ValueError [of w m]
    by (auto simp: build_task_def split: sum.splits dest: gather_snippets_error)
  have nt: "fst (build_task lower target_task None w) \<noteq> Inr (Transformation p tp)" for p tp
    by (auto simp: build_task_def split: sum.splits)
  show ?thesis using eq nv nt build_task_menu_frame by simp
qed

lemma demo_answered:
  "\<forall>r\<in>set (map SStr [lit ''stroop-task'', lit ''gonogo-task'']).
     http demo_world (readme_url r) \<noteq> None"
  by (simp add: world_simps)

lemma demo_menu:
  "build_task example_lower (lit ''flanker'') None demo_world =
     (Inr (Selection
        (choose_template_prompt (lit ''A flanker task.'')
           [\<lparr>c_repo = SStr (lit ''stroop-task''), c_readme_snippet = lit ''# Stroop A task''\<rparr>,
            \<lparr>c_repo = SStr (lit ''gonogo-task''), c_readme_snippet = []\<rparr>])
        NOTE), demo_world)"
  by (simp add: build_task_def snippet_of_def replace_def world_simps)

theorem build_task_empty_source_is_absent_witness:
  "build_task example_lower (lit ''flanker'') (Some []) demo_world =
     (Inr (Selection
        (choose_template_prompt (lit ''A flanker task.'')
           [\<lparr>c_repo = SStr (lit ''stroop-task''), c_readme_snippet = lit ''# Stroop A task''\<rparr>,
            \<lparr>c_repo = SStr (lit ''gonogo-task''), c_readme_snippet = []\<rparr>])
        NOTE), demo_world)"
  using build_task_empty_source_is_absent [of example_lower "lit ''flanker''" demo_world]
    demo_menu
  by simp

text \<open>
  C5, as the claim states it.  A README request that fails without a response raises
  out of \<open>build_task\<close>: in \<open>offline_world\<close> the catalog is read, the first README
  request fails, and the call ends with \<open>RequestError\<close> instead of a candidate with an
  empty snippet.
\<close>

theorem build_task_readme_request_failure_raises:
  "task_repos offline_world = Inr [SStr (lit ''stroop-task''), SStr (lit ''gonogo-task'')] \<and>
   http offline_world (readme_url (SStr (lit ''stroop-task''))) = None \<and>
   build_task example_lower (lit ''flanker'') None offline_world = (Inl RequestError, offline_world)"
  by (simp add: build_task_def world_simps)

text \<open>
  C5, amended.  When every README request of the catalog gets a response,
  \<open>build_task\<close> without a source returns, and its candidates are the repositories of
  the catalog, in order and none left out, each with the snippet of its response: the
  first 2000 code points of the text with newlines replaced by spaces when the status
  is 200, the empty string for any other status.
\<close>

theorem build_task_snippets_when_answered:
  assumes "task_repos w = Inr repos"
    and "\<forall>r\<in>set repos. http w (readme_url r) \<noteq> None"
  shows "build_task lower target_task None w =
           (Inr (Selection
              (choose_template_prompt (lit ''A '' @ target_task @ lit '' task.'')
                 (map (\<lambda>r. \<lparr>c_repo = r,
                             c_readme_snippet =
                               (let rd = the (http w (readme_url r))
                                in if status_code rd = 200
                                   then replace 10 32 (take 2000 (text_of rd)) else [])\<rparr>)
                      repos))
              NOTE), w)"
  using assms by (simp add: build_task_def gather_snippets_answered snippet_of_def Let_def)

theorem build_task_snippets_when_answered_witness:
  "task_repos demo_world = Inr (map SStr [lit ''stroop-task'', lit ''gonogo-task'']) \<and>
   http demo_world (readme_url (SStr (lit ''stroop-task''))) =
     Some (text_response 200 (lit ''# Stroop'' @ [10] @ lit ''A task'')) \<and>
   http demo_world (readme_url (SStr (lit ''gonogo-task''))) =
     Some (text_response 404 (lit ''404: Not Found'')) \<and>
   build_task example_lower (lit ''flanker'') None demo_world =
     (Inr (Selection
        (choose_template_prompt (lit ''A flanker task.'')
           [\<lparr>c_repo = SStr (lit ''stroop-task''), c_readme_snippet = lit ''# Stroop A task''\<rparr>,
            \<lparr>c_repo = SStr (lit ''gonogo-task''), c_readme_snippet = []\<rparr>])
        NOTE), demo_world)"
proof -
  have r1: "http demo_world (readme_url (SStr (lit ''stroop-task''))) =
     Some (text_response 200 (lit ''# Stroop'' @ [10] @ lit ''A task''))"
    by (simp add: world_simps)
  have r2: "http demo_world (readme_url (SStr (lit ''gonogo-task''))) =
     Some (text_response 404 (lit ''404: Not Found''))"
    by (simp add: world_simps)
  have bt: "build_task example_lower (lit ''flanker'') None demo_world =
     (Inr (Selection
        (choose_template_prompt (lit ''A flanker task.'')
           [\<lparr>c_repo = SStr (lit ''stroop-task''), c_readme_snippet = lit ''# Stroop A task''\<rparr>,
            \<lparr>c_repo = SStr (lit ''gonogo-task''), c_readme_snippet = []\<rparr>])
        NOTE), demo_world)"
    using build_task_snippets_when_answered
      [OF demo_catalog demo_answered, of example_lower "lit ''flanker''"]
    by (simp add: r1 r2 text_response_def replace_def) (simp add: lit_def)
  show ?thesis by (intro conjI demo_catalog r1 r2 bt)
qed

lemma split_no_sep: "sep \<notin> set a \<Longrightarrow> split sep a = [a]"
  by (induction a) auto

lemma split_append: "sep \<notin> set a \<Longrightarrow> split sep (a @ sep # rest) = a # split sep rest"
  by (induction a) auto

lemma split_join:
  "xs \<noteq> [] \<Longrightarrow> \<forall>x\<in>set xs. sep \<notin> set x \<Longrightarrow> split sep (join [sep] xs) = xs"
proof (induction xs)
  case Nil
  then show ?case by simp
next
  case (Cons x xs)
  show ?case
  proof (cases xs)
    case Nil
    then show ?thesis using Cons.prems by (simp add: split_no_sep)
  next
    case (Cons y ys)
    then show ?thesis using Cons.IH Cons.prems by (simp add: split_append)
  qed
qed

lemma snippet_no_newline: "10 \<notin> set (snippet_of rd)"
  by (auto simp: snippet_of_def replace_def)

lemma menu_entry_no_newline:
  "10 \<notin> set (py_str (c_repo c)) \<Longrightarrow> 10 \<notin> set (c_readme_snippet c) \<Longrightarrow>
   10 \<notin> set (menu_entry c)"
  by (simp add: menu_entry_def lit_def)

lemma menu_entry_nonempty: "menu_entry c \<noteq> []"
  by (simp add: menu_entry_def lit_def)

text \<open>
  The lines of the listing message: the heading, then one line for each candidate, or
  the placeholder when there is none.
\<close>

lemma listing_lines:
  assumes "\<forall>c\<in>set cands. 10 \<notin> set (py_str (c_repo c)) \<and> 10 \<notin> set (c_readme_snippet c)"
  shows "split 10 (content (choose_template_prompt desc cands ! 2)) =
           lit ''Candidate templates:'' #
           (if cands = [] then [lit ''(no templates found)''] else map menu_entry cands)"
proof (cases cands)
  case Nil
  then show ?thesis
    by (simp add: choose_template_prompt_def UserMessage_def lit_def)
next
  case (Cons c cs)
  let ?es = "map menu_entry cands"
  have ne: "join [10] ?es \<noteq> []"
    using Cons menu_entry_nonempty [of c] by (cases cs) auto
  have nn: "\<forall>e\<in>set ?es. 10 \<notin> set e"
    using assms menu_entry_no_newline by auto
  have "split 10 (join [10] ?es) = ?es"
    using Cons nn by (intro split_join) auto
  moreover have "10 \<notin> set (lit ''Candidate templates:'')" by (simp add: lit_def)
  ultimately show ?thesis using ne Cons
    by (simp add: choose_template_prompt_def UserMessage_def Let_def split_append)
qed

text \<open>
  C6, as the claim states it.  \<open>build_task\<close> without a source does not always return
  the messages: in \<open>offline_world\<close> the catalog is read, a README request fails without
  a response, and the call ends with \<open>RequestError\<close>.
\<close>

theorem build_task_without_source_offline_raises:
  "task_repos offline_world = Inr [SStr (lit ''stroop-task''), SStr (lit ''gonogo-task'')] \<and>
   fst (build_task example_lower (lit ''flanker'') None offline_world) = Inl RequestError \<and>
   (\<forall>msgs n. fst (build_task example_lower (lit ''flanker'') None offline_world) \<noteq>
             Inr (Selection msgs n))"
  by (simp add: build_task_def world_simps)

text \<open>
  C6, amended.  \<open>build_task\<close> without a source leaves the world as it was, whatever
  happens: no clone, no directory.  When the catalog is read and every README request
  of it gets a response, it returns three messages and the note that tells the caller
  to call \<open>build_task\<close> again with the chosen repository as \<open>source_task\<close>; the lines
  of the third message, the listing, are the heading followed by exactly one line for
  each repository of the catalog, in order: its name between \<open>- **\<close> and \<open>**: \<close>, then
  its snippet (the placeholder line alone when the catalog is empty).  Names are taken
  to hold no newline.
\<close>

theorem build_task_without_source_lists_catalog:
  "snd (build_task lower target_task None w) = w \<and>
   (task_repos w = Inr repos \<and>
    (\<forall>r\<in>set repos. http w (readme_url r) \<noteq> None \<and> 10 \<notin> set (py_str r)) \<longrightarrow>
    (\<exists>intro desc listing.
       build_task lower target_task None w =
         (Inr (Selection [intro, desc, listing]
            (lit ''Reply with chosen repo, then call build_task again with source_task=<repo>.'')),
          w) \<and>
       split 10 (content listing) =
         lit ''Candidate templates:'' #
         (if repos = [] then [lit ''(no templates found)'']
          else map (\<lambda>r. lit ''- **'' @ py_str r @ lit ''**: '' @
                         (let rd = the (http w (readme_url r))
                          in if status_code rd = 200
                             then replace 10 32 (take 2000 (text_of rd)) else []))
                   repos)))"
proof (rule conjI)
  show "snd (build_task lower target_task None w) = w"
    by (rule build_task_menu_frame)
next
  show "task_repos w = Inr repos \<and>
    (\<forall>r\<in>set repos. http w (readme_url r) \<noteq> None \<and> 10 \<notin> set (py_str r)) \<longrightarrow>
    (\<exists>intro desc listing.
       build_task lower target_task None w =
         (Inr (Selection [intro, desc, listing]
            (lit ''Reply with chosen repo, then call build_task again with source_task=<repo>.'')),
          w) \<and>
       split 10 (content listing) =
         lit ''Candidate templates:'' #
         (if repos = [] then [lit ''(no templates found)'']
          else map (\<lambda>r. lit ''- **'' @ py_str r @ lit ''**: '' @
                         (let rd = the (http w (readme_url r))
                          in if status_code rd = 200
                             then replace 10 32 (take 2000 (text_of rd)) else []))
                   repos))"
  proof
    assume a: "task_repos w = Inr repos \<and>
      (\<forall>r\<in>set repos. http w (readme_url r) \<noteq> None \<and> 10 \<notin> set (py_str r))"
    let ?cands = "map (\<lambda>r. \<lparr>c_repo = r,
                   c_readme_snippet = snippet_of (the (http w (readme_url r)))\<rparr>) repos"
    let ?msgs = "choose_template_prompt (lit ''A '' @ target_task @ lit '' task.'') ?cands"
    have bt: "build_task lower target_task None w = (Inr (Selection ?msgs NOTE), w)"
      using a by (simp add: build_task_def gather_snippets_answered)
    have three: "?msgs = [?msgs ! 0, ?msgs ! 1, ?msgs ! 2]"
      by (simp add: choose_template_prompt_def Let_def)
    have nn: "\<forall>c\<in>set ?cands. 10 \<notin> set (py_str (c_repo c)) \<and> 10 \<notin> set (c_readme_snippet c)"
      using a by (auto simp: snippet_no_newline)
    have entries: "map menu_entry ?cands =
        map (\<lambda>r. lit ''- **'' @ py_str r @ lit ''**: '' @
                  (let rd = the (http w (readme_url r))
                   in if status_code rd = 200
                      then replace 10 32 (take 2000 (text_of rd)) else [])) repos"
      by (simp add: menu_entry_def snippet_of_def Let_def comp_def)
    have lines: "split 10 (content (?msgs ! 2)) =
       lit ''Candidate templates:'' #
       (if repos = [] then [lit ''(no templates found)'']
        else map (\<lambda>r. lit ''- **'' @ py_str r @ lit ''**: '' @
                       (let rd = the (http w (readme_url r))
                        in if status_code rd = 200
                           then replace 10 32 (take 2000 (text_of rd)) else [])) repos)"
      using listing_lines [OF nn] unfolding entries by simp
    have b3: "build_task lower target_task None w =
                (Inr (Selection [?msgs ! 0, ?msgs ! 1, ?msgs ! 2]
                   (lit ''Reply with chosen repo, then call build_task again with source_task=<repo>.'')),
                 w)"
      using bt three by (simp add: NOTE_def)
    from b3 lines
    show "\<exists>intro desc listing.
       build_task lower target_task None w =
         (Inr (Selection [intro, desc, listing]
            (lit ''Reply with chosen repo, then call build_task again with source_task=<repo>.'')),
          w) \<and>
       split 10 (content listing) =
         lit ''Candidate templates:'' #
         (if repos = [] then [lit ''(no templates found)'']
          else map (\<lambda>r. lit ''- **'' @ py_str r @ lit ''**: '' @
                         (let rd = the (http w (readme_url r))
                          in if status_code rd = 200
                             then replace 10 32 (take 2000 (text_of rd)) else []))
                   repos)"
      by blast
  qed
qed

theorem build_task_without_source_lists_catalog_witness:
  "task_repos demo_world = Inr [SStr (lit ''stroop-task''), SStr (lit ''gonogo-task'')] \<and>
   http demo_world (readme_url (SStr (lit ''stroop-task''))) =
     Some (text_response 200 (lit ''# Stroop'' @ [10] @ lit ''A task'')) \<and>
   http demo_world (readme_url (SStr (lit ''gonogo-task''))) =
     Some (text_response 404 (lit ''404: Not Found'')) \<and>
   snd (build_task example_lower (lit ''flanker'') None demo_world) = demo_world \<and>
   (\<exists>m1 m2 listing.
      build_task example_lower (lit ''flanker'') None demo_world =
        (Inr (Selection [m1, m2, listing]
           (lit ''Reply with chosen repo, then call build_task again with source_task=<repo>.'')),
         demo_world) \<and>
      split 10 (content listing) =
        [lit ''Candidate templates:'', lit ''- **stroop-task**: # Stroop A task'',
         lit ''- **gonogo-task**: ''])"
proof -
  let ?repos = "[SStr (lit ''stroop-task''), SStr (lit ''gonogo-task'')]"
  have cat: "task_repos demo_world = Inr ?repos" using demo_catalog by simp
  have r1: "http demo_world (readme_url (SStr (lit ''stroop-task''))) =
     Some (text_response 200 (lit ''# Stroop'' @ [10] @ lit ''A task''))"
    by (simp add: world_simps)
  have r2: "http demo_world (readme_url (SStr (lit ''gonogo-task''))) =
     Some (text_response 404 (lit ''404: Not Found''))"
    by (simp add: world_simps)
  have ok: "\<forall>r\<in>set ?repos. http demo_world (readme_url r) \<noteq> None \<and> 10 \<notin> set (py_str r)"
    by (simp add: r1 r2) (simp add: lit_def)
  note c6 = build_task_without_source_lists_catalog
    [of example_lower "lit ''flanker''" demo_world ?repos]
  have frame: "snd (build_task example_lower (lit ''flanker'') None demo_world) = demo_world"
    by (rule conjunct1 [OF c6])
  have "\<exists>m1 m2 listing.
      build_task example_lower (lit ''flanker'') None demo_world =
        (Inr (Selection [m1, m2, listing]
           (lit ''Reply with chosen repo, then call build_task again with source_task=<repo>.'')),
         demo_world) \<and>
      split 10 (content listing) =
         lit ''Candidate templates:'' #
         (if ?repos = [] then [lit ''(no templates found)'']
          else map (\<lambda>r. lit ''- **'' @ py_str r @ lit ''**: '' @
                         (let rd = the (http demo_world (readme_url r))
                          in if status_code rd = 200
                             then replace 10 32 (take 2000 (text_of rd)) else []))
                   ?repos)"
    by (rule mp [OF conjunct2 [OF c6] conjI [OF cat ok]])
  then obtain m1 m2 listing where
    bt: "build_task example_lower (lit ''flanker'') None demo_world =
        (Inr (Selection [m1, m2, listing]
           (lit ''Reply with chosen repo, then call build_task again with source_task=<repo>.'')),
         demo_world)"
    and lines: "split 10 (content listing) =
         lit ''Candidate templates:'' #
         (if ?repos = [] then [lit ''(no templates found)'']
          else map (\<lambda>r. lit ''- **'' @ py_str r @ lit ''**: '' @
                         (let rd = the (http demo_world (readme_url r))
                          in if status_code rd = 200
                             then replace 10 32 (take 2000 (text_of rd)) else []))
                   ?repos)"
    by (elim exE conjE)
  have "split 10 (content listing) =
        [lit ''Candidate templates:'', lit ''- **stroop-task**: # Stroop A task'',
         lit ''- **gonogo-task**: '']"
    unfolding lines by (simp add: r1 r2 text_response_def) (simp add: replace_def lit_def)
  with bt have ex: "\<exists>m1 m2 listing.
      build_task example_lower (lit ''flanker'') None demo_world =
        (Inr (Selection [m1, m2, listing]
           (lit ''Reply with chosen repo, then call build_task again with source_task=<repo>.'')),
         demo_world) \<and>
      split 10 (content listing) =
        [lit ''Candidate templates:'', lit ''- **stroop-task**: # Stroop A task'',
         lit ''- **gonogo-task**: '']"
    by blast
  show ?thesis by (intro conjI cat r1 r2 frame ex)
qed

end
